theory Spec2Isabelle
  imports Complex_Main "HOL-Library.Word"
begin

unbundle bit_operations_syntax

section \<open>The Stellar registration bridge (\<open>StellarService\<close>)\<close>

text \<open>
  A shallow embedding of the class \<open>StellarService\<close>: its lifecycle hook
  \<open>onModuleInit\<close>, the getter \<open>isEnabled\<close>, \<open>deriveAssetId\<close>, \<open>mapStatus\<close>,
  \<open>registerAsset\<close> and \<open>pollForConfirmation\<close>. Exceptions are values of the type
  \<open>error\<close>; what the service logs, the calls it makes on the RPC server and its sleeps
  are recorded, in order, as a list of \<open>event\<close>s.
\<close>

subsection \<open>Errors and events\<close>

datatype error =
    Error string        \<comment> \<open>\<open>throw new Error(message)\<close>\<close>
  | TypeError string    \<comment> \<open>a property read on \<open>undefined\<close>\<close>
  | RangeError string   \<comment> \<open>\<open>BigInt\<close> of a non-integral number, an integer out of range\<close>
  | Rejected string     \<comment> \<open>an SDK constructor that throws, an RPC promise that rejects\<close>

datatype level = Log_log | Log_error | Log_debug

subsection \<open>Configuration\<close>

text \<open>
  \<open>ConfigService.get(key)\<close> is \<open>undefined\<close> for a key that is not set, and
  \<open>get(key, default)\<close> is the default then.
\<close>

type_synonym config = "string \<rightharpoonup> string"

definition get :: "config \<Rightarrow> string \<Rightarrow> string option" where
  "get cfg key = cfg key"

definition get_default :: "config \<Rightarrow> string \<Rightarrow> string \<Rightarrow> string" where
  "get_default cfg key d = (case cfg key of None \<Rightarrow> d | Some v \<Rightarrow> v)"

text \<open>JavaScript's \<open>!s\<close> for \<open>s\<close> a string or \<open>undefined\<close>: both \<open>undefined\<close> and \<open>''\<close> are falsy.\<close>

definition falsy :: "string option \<Rightarrow> bool" where
  "falsy s = (case s of None \<Rightarrow> True | Some v \<Rightarrow> v = [])"

definition TESTNET :: string where
  "TESTNET = ''Test SDF Network ; September 2015''"

definition BASE_FEE :: string where
  "BASE_FEE = ''100''"

subsection \<open>The service's fields\<close>

record Keypair =
  secret :: string
  publicKey :: string

record StellarService =
  enabled :: bool
  keypair :: "Keypair option"
  server :: "string option"             \<comment> \<open>the RPC server, by its URL\<close>
  contractId :: "string option"
  networkPassphrase :: "string option"

text \<open>The fields as the class declares them: \<open>enabled = false\<close>, the others unassigned.\<close>

definition new_StellarService :: StellarService where
  "new_StellarService =
     \<lparr>enabled = False, keypair = None, server = None, contractId = None,
      networkPassphrase = None\<rparr>"

text \<open>
  What depends on the SDK is a parameter. The constructors that can throw:
  \<open>Keypair.fromSecret\<close> gives the public key of a secret seed and throws on a malformed one
  (\<open>None\<close>), \<open>new rpc.Server(url, {allowHttp: false})\<close> throws on a URL it does not accept
  and \<open>new Contract(id)\<close> on an identifier that is not a contract address (\<open>False\<close>).
  And what \<open>nativeToScVal\<close> makes of an integer that the width asked for cannot hold:
  versions of the SDK differ, some reduce it modulo the width (\<open>Inr\<close> of the integer
  encoded), others throw (\<open>Inl\<close>).
\<close>

record sdk =
  fromSecret :: "string \<Rightarrow> string option"
  acceptsUrl :: "string \<Rightarrow> bool"
  validContract :: "string \<Rightarrow> bool"
  i128_beyond :: "int \<Rightarrow> error + int"
  u64_beyond :: "int \<Rightarrow> error + int"

subsection \<open>\<open>onModuleInit\<close> and \<open>isEnabled\<close>\<close>

text \<open>
  The result is the exception that escapes the hook, if any, the service's fields when it
  ends, and the lines logged.
\<close>

definition onModuleInit ::
  "sdk \<Rightarrow> config \<Rightarrow> StellarService \<Rightarrow> error option \<times> StellarService \<times> (level \<times> string) list"
where
  "onModuleInit k cfg this =
    (let this = this\<lparr>enabled := (get cfg ''STELLAR_ENABLED'' = Some ''true'')\<rparr> in
     if \<not> enabled this then
       (None, this, [(Log_log, ''Stellar integration is disabled (STELLAR_ENABLED != true)'')])
     else
       let secretKey = get cfg ''STELLAR_SECRET_KEY'';
           rpcUrl = get_default cfg ''STELLAR_RPC_URL'' ''https://soroban-testnet.stellar.org'';
           this = this\<lparr>contractId := get cfg ''STELLAR_CONTRACT_ID''\<rparr>;
           this = this\<lparr>networkPassphrase :=
                    Some (get_default cfg ''STELLAR_NETWORK_PASSPHRASE'' TESTNET)\<rparr>
       in
       if falsy secretKey \<or> falsy (contractId this) then
         (None, this\<lparr>enabled := False\<rparr>,
          [(Log_error, ''STELLAR_SECRET_KEY and STELLAR_CONTRACT_ID must be set when STELLAR_ENABLED=true'')])
       else
         (case fromSecret k (the secretKey) of
            None \<Rightarrow> (Some (Rejected ''Keypair.fromSecret''), this, [])
          | Some pk \<Rightarrow>
              let this = this\<lparr>keypair := Some \<lparr>secret = the secretKey, publicKey = pk\<rparr>\<rparr> in
              if \<not> acceptsUrl k rpcUrl then (Some (Rejected ''rpc.Server''), this, [])
              else
                (None, this\<lparr>server := Some rpcUrl\<rparr>,
                 [(Log_log, ''Stellar integration enabled. Public key: '' @ pk)])))"

definition isEnabled :: "StellarService \<Rightarrow> bool" where
  "isEnabled this = enabled this"

subsection \<open>\<open>mapStatus\<close>\<close>

text \<open>
  The enumeration \<open>AssetStatus\<close> is declared in \<open>../assets/enums\<close>; its members are
  taken from the frontend's mirror of it (\<open>status-badge.tsx\<close>).
\<close>

datatype AssetStatus = ACTIVE | ASSIGNED | MAINTENANCE | RETIRED

fun mapStatus :: "AssetStatus \<Rightarrow> string" where
  "mapStatus RETIRED = ''Retired''"
| "mapStatus _ = ''Active''"

subsection \<open>\<open>deriveAssetId\<close>: SHA-256 of the identifier\<close>

text \<open>
  \<open>crypto.createHash('sha256').update(uuid).digest()\<close> is the SHA-256 digest (FIPS 180-4)
  of the UTF-8 bytes of \<open>uuid\<close>. The hash is written out on 32-bit words; the identifier is
  a \<open>string\<close>, whose characters are the bytes of its UTF-8 encoding.
\<close>

type_synonym byte = "8 word"
type_synonym u32 = "32 word"

definition rotr :: "nat \<Rightarrow> u32 \<Rightarrow> u32" where
  "rotr n x = (drop_bit n x) OR (push_bit (32 - n) x)"

definition Ch :: "u32 \<Rightarrow> u32 \<Rightarrow> u32 \<Rightarrow> u32" where
  "Ch x y z = (x AND y) XOR (NOT x AND z)"

definition Maj :: "u32 \<Rightarrow> u32 \<Rightarrow> u32 \<Rightarrow> u32" where
  "Maj x y z = (x AND y) XOR (x AND z) XOR (y AND z)"

definition Sigma0 :: "u32 \<Rightarrow> u32" where
  "Sigma0 x = rotr 2 x XOR rotr 13 x XOR rotr 22 x"

definition Sigma1 :: "u32 \<Rightarrow> u32" where
  "Sigma1 x = rotr 6 x XOR rotr 11 x XOR rotr 25 x"

definition sigma0 :: "u32 \<Rightarrow> u32" where
  "sigma0 x = rotr 7 x XOR rotr 18 x XOR drop_bit 3 x"

definition sigma1 :: "u32 \<Rightarrow> u32" where
  "sigma1 x = rotr 17 x XOR rotr 19 x XOR drop_bit 10 x"

text \<open>
  The round constants (the first 32 bits of the fractional parts of the cube roots of the
  first 64 primes) and the initial hash value (likewise, of the square roots of the first
  8 primes), in decimal.
\<close>

definition K :: "u32 list" where
  "K = [1116352408, 1899447441, 3049323471, 3921009573, 961987163, 1508970993,
        2453635748, 2870763221, 3624381080, 310598401, 607225278, 1426881987,
        1925078388, 2162078206, 2614888103, 3248222580, 3835390401, 4022224774,
        264347078, 604807628, 770255983, 1249150122, 1555081692, 1996064986,
        2554220882, 2821834349, 2952996808, 3210313671, 3336571891, 3584528711,
        113926993, 338241895, 666307205, 773529912, 1294757372, 1396182291,
        1695183700, 1986661051, 2177026350, 2456956037, 2730485921, 2820302411,
        3259730800, 3345764771, 3516065817, 3600352804, 4094571909, 275423344,
        430227734, 506948616, 659060556, 883997877, 958139571, 1322822218,
        1537002063, 1747873779, 1955562222, 2024104815, 2227730452, 2361852424,
        2428436474, 2756734187, 3204031479, 3329325298]"

definition H0 :: "u32 list" where
  "H0 = [1779033703, 3144134277, 1013904242, 2773480762,
         1359893119, 2600822924, 528734635, 1541459225]"

text \<open>Words and their big-endian bytes.\<close>

definition be32 :: "byte list \<Rightarrow> u32" where
  "be32 bs = foldl (\<lambda>w b. push_bit 8 w OR ucast b) 0 bs"

definition bytes_of_u32 :: "u32 \<Rightarrow> byte list" where
  "bytes_of_u32 w = [ucast (drop_bit 24 w), ucast (drop_bit 16 w), ucast (drop_bit 8 w), ucast w]"

definition bytes_of_u64 :: "64 word \<Rightarrow> byte list" where
  "bytes_of_u64 w = map (\<lambda>i. ucast (drop_bit (8 * (7 - i)) w)) [0..<8]"

text \<open>
  Padding: the byte \<open>0x80\<close>, zeros up to 56 modulo 64, and the length of the message in bits
  as a 64-bit big-endian number.
\<close>

definition pad :: "byte list \<Rightarrow> byte list" where
  "pad m = m @ [0x80] @ replicate ((119 - length m mod 64) mod 64) 0
             @ bytes_of_u64 (of_nat (8 * length m))"

fun chunks :: "nat \<Rightarrow> 'a list \<Rightarrow> 'a list list" where
  "chunks n [] = []"
| "chunks n xs = (if n = 0 then [xs] else take n xs # chunks n (drop n xs))"

text \<open>The message schedule: the 16 words of a block, extended to 64.\<close>

fun extend :: "nat \<Rightarrow> u32 list \<Rightarrow> u32 list" where
  "extend 0 w = w"
| "extend (Suc n) w =
     (let t = length w in
      extend n (w @ [sigma1 (w ! (t - 2)) + w ! (t - 7) + sigma0 (w ! (t - 15)) + w ! (t - 16)]))"

definition schedule :: "byte list \<Rightarrow> u32 list" where
  "schedule block = extend 48 (map be32 (chunks 4 block))"

text \<open>One round on the eight working variables; the hash of a block; the digest.\<close>

fun round256 :: "u32 list \<Rightarrow> u32 \<times> u32 \<Rightarrow> u32 list" where
  "round256 [a, b, c, d, e, f, g, h] (k, w) =
     (let t1 = h + Sigma1 e + Ch e f g + k + w;
          t2 = Sigma0 a + Maj a b c
      in [t1 + t2, a, b, c, d + t1, e, f, g])"
| "round256 s _ = s"

definition compress :: "u32 list \<Rightarrow> byte list \<Rightarrow> u32 list" where
  "compress h block = map2 (+) h (foldl round256 h (zip K (schedule block)))"

definition sha256 :: "byte list \<Rightarrow> byte list" where
  "sha256 m = concat (map bytes_of_u32 (foldl compress H0 (chunks 64 (pad m))))"

text \<open>\<open>Buffer.toString('hex')\<close>: two lower-case digits for each byte.\<close>

definition hexdigit :: "nat \<Rightarrow> char" where
  "hexdigit n = ''0123456789abcdef'' ! (n mod 16)"

definition toHex :: "byte list \<Rightarrow> string" where
  "toHex bs = concat (map (\<lambda>b. [hexdigit (unat b div 16), hexdigit (unat b mod 16)]) bs)"

definition utf8 :: "string \<Rightarrow> byte list" where
  "utf8 s = map of_char s"

record AssetId =
  buffer :: "byte list"
  hex :: string

definition deriveAssetId :: "string \<Rightarrow> AssetId" where
  "deriveAssetId uuid =
     (let buffer = sha256 (utf8 uuid) in \<lparr>buffer = buffer, hex = toHex buffer\<rparr>)"

subsection \<open>JavaScript numbers\<close>

text \<open>
  A \<open>number\<close> is an IEEE 754 binary64 value: a rational that the format represents, an
  infinity or \<open>NaN\<close> (the two zeros are not told apart: nothing below depends on the sign
  of a zero). \<open>binary64 x\<close> rounds the real \<open>x\<close> to the nearest such value, ties to the even
  significand: 53 bits, exponents from \<open>-1022\<close> (below it the spacing stays \<open>2^-1074\<close>) to
  \<open>1023\<close>. A significand that rounds up to \<open>2^53\<close> is in the next binade, and what
  rounds to \<open>2^1024\<close> or beyond is an infinity.
\<close>

datatype number = Finite rat | Infinity | NegInfinity | NaN

function ilog2 :: "int \<Rightarrow> int" where
  "ilog2 n = (if n < 2 then 0 else 1 + ilog2 (n div 2))"
  by pat_completeness auto
termination
  by (relation "measure nat") auto

declare ilog2.simps [simp del]

definition pow2 :: "int \<Rightarrow> rat" where
  "pow2 e = (if 0 \<le> e then 2 ^ nat e else 1 / 2 ^ nat (- e))"

text \<open>The binary exponent of a positive rational: \<open>2^e \<le> x < 2^(e+1)\<close>.\<close>

definition exponent :: "rat \<Rightarrow> int" where
  "exponent x =
     (let (a, b) = quotient_of x; e = ilog2 a - ilog2 b in
      if pow2 e \<le> x then e else e - 1)"

definition roundHalfEven :: "rat \<Rightarrow> int" where
  "roundHalfEven x =
     (let f = \<lfloor>x\<rfloor>; r = x - of_int f in
      if r < 1 / 2 then f else if 1 / 2 < r then f + 1 else if even f then f else f + 1)"

definition binary64 :: "rat \<Rightarrow> number" where
  "binary64 x =
    (if x = 0 then Finite 0
     else
       let e = max (exponent \<bar>x\<bar>) (- 1022);
           ulp = pow2 (e - 52);
           m = roundHalfEven (\<bar>x\<bar> / ulp);
           e' = (if m = 2 ^ 53 then e + 1 else e)
       in if 1023 < e' then (if x < 0 then NegInfinity else Infinity)
          else Finite (if x < 0 then - (of_int m * ulp) else of_int m * ulp))"

text \<open>The product of two numbers, \<open>a * b\<close>.\<close>

fun times_number :: "number \<Rightarrow> number \<Rightarrow> number" where
  "times_number (Finite a) (Finite b) = binary64 (a * b)"
| "times_number NaN _ = NaN"
| "times_number _ NaN = NaN"
| "times_number (Finite a) Infinity =
     (if a = 0 then NaN else if 0 < a then Infinity else NegInfinity)"
| "times_number (Finite a) NegInfinity =
     (if a = 0 then NaN else if 0 < a then NegInfinity else Infinity)"
| "times_number Infinity (Finite b) =
     (if b = 0 then NaN else if 0 < b then Infinity else NegInfinity)"
| "times_number NegInfinity (Finite b) =
     (if b = 0 then NaN else if 0 < b then NegInfinity else Infinity)"
| "times_number Infinity Infinity = Infinity"
| "times_number NegInfinity NegInfinity = Infinity"
| "times_number Infinity NegInfinity = NegInfinity"
| "times_number NegInfinity Infinity = NegInfinity"

text \<open>
  \<open>Math.round(x)\<close> is the integer nearest to \<open>x\<close>, the greater one at a tie; \<open>Math.floor\<close>
  the greatest integer not above \<open>x\<close>. Both give a value of the format, computed exactly.
\<close>

fun Math_round :: "number \<Rightarrow> number" where
  "Math_round (Finite x) = Finite (of_int \<lfloor>x + 1 / 2\<rfloor>)"
| "Math_round n = n"

text \<open>\<open>BigInt(x)\<close> throws a \<open>RangeError\<close> unless \<open>x\<close> is an integer.\<close>

fun BigInt :: "number \<Rightarrow> error + int" where
  "BigInt (Finite x) =
     (if of_int \<lfloor>x\<rfloor> = x then Inr \<lfloor>x\<rfloor>
      else Inl (RangeError ''The number cannot be converted to a BigInt because it is not an integer''))"
| "BigInt _ =
     Inl (RangeError ''The number cannot be converted to a BigInt because it is not an integer'')"

subsection \<open>The asset and its purchase price\<close>

text \<open>
  The entity \<open>Asset\<close> is declared in \<open>../assets/asset.entity\<close>; \<open>registerAsset\<close> reads the
  fields below. The purchase price is \<open>null\<close>, a number or, as a decimal column is read
  from the database, the string of a decimal numeral; a number and a string are given by
  the decimal they spell, and \<open>Number\<close> makes of either the nearest \<open>number\<close>.
\<close>

datatype price = Null | Num rat | Str rat

fun Number :: "price \<Rightarrow> number" where
  "Number Null = Finite 0"
| "Number (Num q) = binary64 q"
| "Number (Str q) = binary64 q"

text \<open>Truthiness: \<open>null\<close> and the number zero are falsy, the string of a numeral is not empty.\<close>

fun truthy :: "price \<Rightarrow> bool" where
  "truthy Null = False"
| "truthy (Num q) = (binary64 q \<noteq> Finite 0)"
| "truthy (Str q) = True"

record Category =
  name_category :: "string option"

record Asset =
  id_asset :: string
  name :: string
  description :: "string option"
  category :: "Category option"
  status :: AssetStatus
  purchasePrice :: price

text \<open>Line 79: \<open>asset.purchasePrice ? Math.round(Number(asset.purchasePrice) * 100) : 0\<close>.\<close>

definition cents :: "price \<Rightarrow> number" where
  "cents p = (if truthy p then Math_round (times_number (Number p) (Finite 100)) else Finite 0)"

text \<open>The quotient \<open>a / b\<close> of two finite numbers, and \<open>Math.floor\<close>.\<close>

definition divide_finite :: "rat \<Rightarrow> rat \<Rightarrow> number" where
  "divide_finite a b =
     (if b = 0 then (if a = 0 then NaN else if 0 < a then Infinity else NegInfinity)
      else binary64 (a / b))"

fun Math_floor :: "number \<Rightarrow> number" where
  "Math_floor (Finite x) = Finite (of_int \<lfloor>x\<rfloor>)"
| "Math_floor n = n"

subsection \<open>The contract's values and the record of an asset\<close>

datatype ScVal =
    ScvSymbol string
  | ScvString string
  | ScvBytes "byte list"
  | ScvU64 int
  | ScvI128 int
  | ScvAddress string
  | ScvVec "ScVal list"
  | ScvMap "(ScVal \<times> ScVal) list"

text \<open>
  \<open>nativeToScVal(v, {type})\<close> for the three types the service asks for. An integer that
  the width holds is encoded as it is; one that it does not hold is left to the SDK.
\<close>

definition nativeToScVal_string :: "string \<Rightarrow> ScVal" where
  "nativeToScVal_string v = ScvString v"

definition nativeToScVal_u64 :: "sdk \<Rightarrow> int \<Rightarrow> error + ScVal" where
  "nativeToScVal_u64 k v =
     (if 0 \<le> v \<and> v < 2 ^ 64 then Inr (ScvU64 v)
      else case u64_beyond k v of Inl e \<Rightarrow> Inl e | Inr w \<Rightarrow> Inr (ScvU64 w))"

definition nativeToScVal_i128 :: "sdk \<Rightarrow> int \<Rightarrow> error + ScVal" where
  "nativeToScVal_i128 k v =
     (if - (2 ^ 127) \<le> v \<and> v < 2 ^ 127 then Inr (ScvI128 v)
      else case i128_beyond k v of Inl e \<Rightarrow> Inl e | Inr w \<Rightarrow> Inr (ScvI128 w))"

text \<open>
  Lines 73 to 127. \<open>nowMs\<close> is what \<open>Date.now()\<close> returns, a whole number of milliseconds.
  The entries of the map are evaluated in the order they are written, so the first
  exception in that order is the one thrown: \<open>this.keypair\<close> is read at \<open>owner\<close>, before
  the purchase value is converted.
\<close>

definition assetScVal :: "sdk \<Rightarrow> StellarService \<Rightarrow> Asset \<Rightarrow> int \<Rightarrow> error + ScVal" where
  "assetScVal k this asset nowMs =
    (let assetIdBuffer = buffer (deriveAssetId (id_asset asset));
         sorobanStatus = mapStatus (status asset);
         purchasePrice = cents (purchasePrice asset)
     in
     case BigInt (Math_floor (divide_finite (of_int nowMs) 1000)) of
       Inl e \<Rightarrow> Inl e
     | Inr now \<Rightarrow>
    (case keypair this of
       None \<Rightarrow> Inl (TypeError ''Cannot read properties of undefined (reading publicKey)'')
     | Some kp \<Rightarrow>
    (case BigInt purchasePrice of
       Inl e \<Rightarrow> Inl e
     | Inr cents_n \<Rightarrow>
    (case nativeToScVal_i128 k cents_n of
       Inl e \<Rightarrow> Inl e
     | Inr purchase_value \<Rightarrow>
    (case nativeToScVal_u64 k now of
       Inl e \<Rightarrow> Inl e
     | Inr registration_timestamp \<Rightarrow>
       Inr (ScvMap
         [(ScvSymbol ''category'',
             nativeToScVal_string
               (case category asset of
                  None \<Rightarrow> ''''
                | Some c \<Rightarrow> (case name_category c of None \<Rightarrow> '''' | Some n \<Rightarrow> n))),
          (ScvSymbol ''custom_attributes'', ScvVec []),
          (ScvSymbol ''description'',
             nativeToScVal_string (case description asset of None \<Rightarrow> '''' | Some d \<Rightarrow> d)),
          (ScvSymbol ''id'', ScvBytes assetIdBuffer),
          (ScvSymbol ''last_transfer_timestamp'', ScvU64 0),
          (ScvSymbol ''metadata_uri'', nativeToScVal_string ''''),
          (ScvSymbol ''name'', nativeToScVal_string (name asset)),
          (ScvSymbol ''owner'', ScvAddress (publicKey kp)),
          (ScvSymbol ''purchase_value'', purchase_value),
          (ScvSymbol ''registration_timestamp'', registration_timestamp),
          (ScvSymbol ''status'', ScvVec [ScvSymbol sorobanStatus])]))))))"

text \<open>The value of a field of a map, by the symbol that is its key.\<close>

fun field :: "string \<Rightarrow> ScVal \<Rightarrow> ScVal option" where
  "field key (ScvMap entries) = map_of entries (ScvSymbol key)"
| "field key _ = None"

subsection \<open>The RPC server\<close>

record Account =
  accountId :: string
  sequence :: string

record Transaction =
  tx_source :: Account
  tx_fee :: string
  tx_networkPassphrase :: "string option"
  tx_contract :: string
  tx_function :: string
  tx_args :: "ScVal list"
  tx_timeout :: nat
  tx_sorobanData :: "string option"   \<comment> \<open>the footprint and authorisation that assembling attaches\<close>
  tx_signatures :: "string list"      \<comment> \<open>the public keys that signed\<close>

datatype SimulateTransactionResponse =
    SimulationError string      \<comment> \<open>\<open>isSimulationError\<close> holds; the field \<open>error\<close>\<close>
  | SimulationSuccess string    \<comment> \<open>the transaction data of a simulation that went through\<close>

text \<open>
  The status of an answer is the string the server sent: \<open>PENDING\<close>, \<open>DUPLICATE\<close>,
  \<open>TRY_AGAIN_LATER\<close> or \<open>ERROR\<close> for a submission, and for a status query the values of
  the SDK's enumeration \<open>GetTransactionStatus\<close> below.
\<close>

record SendTransactionResponse =
  status_send :: string
  hash_send :: string
  errorResult :: "string option"   \<comment> \<open>the payload as \<open>JSON.stringify\<close> prints it, if there is one\<close>

type_synonym GetTransactionStatus = string

definition SUCCESS :: GetTransactionStatus where
  "SUCCESS = ''SUCCESS''"

definition NOT_FOUND :: GetTransactionStatus where
  "NOT_FOUND = ''NOT_FOUND''"

definition FAILED :: GetTransactionStatus where
  "FAILED = ''FAILED''"

text \<open>
  What the server answers, a rejected promise as \<open>Inl\<close>. \<open>getTransaction n h\<close> is the answer
  to the \<open>n\<close>-th status query for the hash \<open>h\<close>, counted from 1.
\<close>

record rpc =
  getAccount :: "string \<Rightarrow> error + Account"
  simulateTransaction :: "Transaction \<Rightarrow> error + SimulateTransactionResponse"
  sendTransaction :: "Transaction \<Rightarrow> error + SendTransactionResponse"
  getTransaction :: "nat \<Rightarrow> string \<Rightarrow> error + GetTransactionStatus"

datatype event =
    Logged level string
  | Call_getAccount string
  | Call_simulateTransaction Transaction
  | Call_sendTransaction Transaction
  | Slept nat
  | Call_getTransaction string

text \<open>\<open>emit evs r\<close>: the events \<open>evs\<close> happen, then what \<open>r\<close> does.\<close>

fun emit :: "event list \<Rightarrow> 'a \<times> event list \<Rightarrow> 'a \<times> event list" where
  "emit evs (r, evs') = (r, evs @ evs')"

subsection \<open>\<open>pollForConfirmation\<close>\<close>

definition MAX_ATTEMPTS :: nat where
  "MAX_ATTEMPTS = 20"

definition INTERVAL_MS :: nat where
  "INTERVAL_MS = 3000"

fun string_of_nat :: "nat \<Rightarrow> string" where
  "string_of_nat n =
     (if n < 10 then [''0123456789'' ! n]
      else string_of_nat (n div 10) @ [''0123456789'' ! (n mod 10)])"

declare string_of_nat.simps [simp del]

text \<open>The loop of lines 171 to 186, from the attempt \<open>attempt\<close> on, and the \<open>throw\<close> after it.\<close>

function pollLoop :: "rpc \<Rightarrow> string \<Rightarrow> nat \<Rightarrow> (error + string) \<times> event list" where
  "pollLoop srv txHash attempt =
     (if attempt \<le> MAX_ATTEMPTS then
        emit [Slept INTERVAL_MS, Call_getTransaction txHash]
          (case getTransaction srv attempt txHash of
             Inl e \<Rightarrow> (Inl e, [])
           | Inr result \<Rightarrow>
               if result = SUCCESS then
                 (Inr txHash, [Logged Log_log (''Transaction confirmed: '' @ txHash)])
               else if result = FAILED then
                 (Inl (Error (''Transaction failed on-chain: '' @ txHash)), [])
               else
                 emit [Logged Log_debug
                         (''Poll attempt '' @ string_of_nat attempt @ ''/''
                            @ string_of_nat MAX_ATTEMPTS @ '': status='' @ result)]
                   (pollLoop srv txHash (Suc attempt)))
      else
        (Inl (Error (''Transaction not confirmed after '' @ string_of_nat MAX_ATTEMPTS
                       @ '' attempts: '' @ txHash)), []))"
  by pat_completeness auto
termination
  by (relation "measure (\<lambda>(srv, txHash, attempt). Suc MAX_ATTEMPTS - attempt)") auto

declare pollLoop.simps [simp del]

definition pollForConfirmation :: "rpc \<Rightarrow> string \<Rightarrow> (error + string) \<times> event list" where
  "pollForConfirmation srv txHash = pollLoop srv txHash 1"

subsection \<open>\<open>registerAsset\<close>\<close>

text \<open>
  Lines 133 to 140: one call of \<open>register_asset\<close> on the contract, with the record as its
  argument, the base fee and a timeout of 300.
\<close>

definition buildTransaction :: "Account \<Rightarrow> string option \<Rightarrow> string \<Rightarrow> ScVal \<Rightarrow> Transaction" where
  "buildTransaction account passphrase cid arg =
     \<lparr>tx_source = account, tx_fee = BASE_FEE, tx_networkPassphrase = passphrase,
      tx_contract = cid, tx_function = ''register_asset'', tx_args = [arg],
      tx_timeout = 300, tx_sorobanData = None, tx_signatures = []\<rparr>"

definition assembleTransaction :: "Transaction \<Rightarrow> string \<Rightarrow> Transaction" where
  "assembleTransaction tx sim = tx\<lparr>tx_sorobanData := Some sim\<rparr>"

definition sign :: "Transaction \<Rightarrow> Keypair \<Rightarrow> Transaction" where
  "sign tx kp = tx\<lparr>tx_signatures := tx_signatures tx @ [publicKey kp]\<rparr>"

definition JSON_stringify :: "string option \<Rightarrow> string" where
  "JSON_stringify v = (case v of None \<Rightarrow> ''undefined'' | Some json \<Rightarrow> json)"

text \<open>
  The result of \<open>registerAsset\<close> is the hash it returns or the exception it throws, with
  the events in their order. No field of the service is assigned.
\<close>

definition registerAsset ::
  "sdk \<Rightarrow> rpc \<Rightarrow> int \<Rightarrow> StellarService \<Rightarrow> Asset \<Rightarrow> (error + string) \<times> event list"
where
  "registerAsset k srv nowMs this asset =
    (case assetScVal k this asset nowMs of
       Inl e \<Rightarrow> (Inl e, [])
     | Inr payload \<Rightarrow>
    (case server this of
       None \<Rightarrow> (Inl (TypeError ''Cannot read properties of undefined (reading getAccount)''), [])
     | Some url \<Rightarrow>
    (case keypair this of
       None \<Rightarrow> (Inl (TypeError ''Cannot read properties of undefined (reading publicKey)''), [])
     | Some kp \<Rightarrow>
    emit [Call_getAccount (publicKey kp)]
    (case getAccount srv (publicKey kp) of
       Inl e \<Rightarrow> (Inl e, [])
     | Inr account \<Rightarrow>
    (case contractId this of
       None \<Rightarrow> (Inl (Rejected ''Contract''), [])
     | Some cid \<Rightarrow>
    if \<not> validContract k cid then (Inl (Rejected ''Contract''), [])
    else
      let tx = buildTransaction account (networkPassphrase this) cid payload in
      emit [Call_simulateTransaction tx]
      (case simulateTransaction srv tx of
         Inl e \<Rightarrow> (Inl e, [])
       | Inr (SimulationError err) \<Rightarrow> (Inl (Error (''Simulation failed: '' @ err)), [])
       | Inr (SimulationSuccess sim) \<Rightarrow>
      let assembled = sign (assembleTransaction tx sim) kp in
      emit [Call_sendTransaction assembled]
      (case sendTransaction srv assembled of
         Inl e \<Rightarrow> (Inl e, [])
       | Inr sendResult \<Rightarrow>
      if status_send sendResult = ''ERROR'' then
        (Inl (Error (''Transaction submission failed: ''
                       @ JSON_stringify (errorResult sendResult))), [])
      else
        let txHash = hash_send sendResult in
        emit [Logged Log_log
                (''Transaction submitted: '' @ txHash @ '', polling for confirmation...'')]
          (pollForConfirmation srv txHash))))))))"

subsection \<open>Reading a run: counting calls\<close>

fun is_poll :: "event \<Rightarrow> bool" where
  "is_poll (Call_getTransaction _) = True"
| "is_poll _ = False"

fun is_sleep :: "event \<Rightarrow> bool" where
  "is_sleep (Slept _) = True"
| "is_sleep _ = False"

fun is_simulate :: "event \<Rightarrow> bool" where
  "is_simulate (Call_simulateTransaction _) = True"
| "is_simulate _ = False"

fun is_send :: "event \<Rightarrow> bool" where
  "is_send (Call_sendTransaction _) = True"
| "is_send _ = False"

definition polls :: "event list \<Rightarrow> nat" where
  "polls evs = length (filter is_poll evs)"

definition sleeps :: "event list \<Rightarrow> nat" where
  "sleeps evs = length (filter is_sleep evs)"

definition simulations :: "event list \<Rightarrow> nat" where
  "simulations evs = length (filter is_simulate evs)"

definition submissions :: "event list \<Rightarrow> nat" where
  "submissions evs = length (filter is_send evs)"

text \<open>An answer to a status query that keeps the loop going: a status that is not terminal.\<close>

definition pending :: "error + GetTransactionStatus \<Rightarrow> bool" where
  "pending r = (case r of Inl _ \<Rightarrow> False | Inr s \<Rightarrow> s \<noteq> SUCCESS \<and> s \<noteq> FAILED)"

subsection \<open>The conversion to cents as the specification words it\<close>

text \<open>
  The specification's section 4.2 has the price multiplied by 100 and truncated to an
  integer. \<open>cents_truncated\<close> follows those words, to be compared with \<open>cents\<close>.
\<close>

fun Math_trunc :: "number \<Rightarrow> number" where
  "Math_trunc (Finite x) = Finite (of_int (if 0 \<le> x then \<lfloor>x\<rfloor> else \<lceil>x\<rceil>))"
| "Math_trunc n = n"

definition cents_truncated :: "price \<Rightarrow> number" where
  "cents_truncated p =
     (if truthy p then Math_trunc (times_number (Number p) (Finite 100)) else Finite 0)"


subsection \<open>Example inputs\<close>

definition example_sdk :: sdk where
  "example_sdk =
     \<lparr>fromSecret = (\<lambda>s. if s = ''SECRETSEED'' then Some ''GPUBLICKEY'' else None),
      acceptsUrl = (\<lambda>url. take 8 url = ''https://''),
      validContract = (\<lambda>c. c = ''CCONTRACT''),
      i128_beyond = (\<lambda>v. Inr ((v + 2 ^ 127) mod 2 ^ 128 - 2 ^ 127)),
      u64_beyond = (\<lambda>v. Inr (v mod 2 ^ 64))\<rparr>"

definition example_config :: config where
  "example_config =
     [''STELLAR_ENABLED'' \<mapsto> ''true'', ''STELLAR_SECRET_KEY'' \<mapsto> ''SECRETSEED'',
      ''STELLAR_CONTRACT_ID'' \<mapsto> ''CCONTRACT'']"

definition example_service :: StellarService where
  "example_service =
     \<lparr>enabled = True, keypair = Some \<lparr>secret = ''SECRETSEED'', publicKey = ''GPUBLICKEY''\<rparr>,
      server = Some ''https://soroban-testnet.stellar.org'', contractId = Some ''CCONTRACT'',
      networkPassphrase = Some TESTNET\<rparr>"

definition example_asset :: Asset where
  "example_asset =
     \<lparr>id_asset = ''7c9e6679-7425-40de-944b-e07fc1f90ae7'', name = ''Laptop'',
      description = None, category = Some \<lparr>name_category = None\<rparr>, status = MAINTENANCE,
      purchasePrice = Str (19995 / 1000)\<rparr>"

text \<open>An asset whose price in cents is beyond 128 bits.\<close>

definition dear_asset :: Asset where
  "dear_asset = example_asset\<lparr>purchasePrice := Str (10 ^ 40)\<rparr>"

definition example_server ::
  "SimulateTransactionResponse \<Rightarrow> SendTransactionResponse \<Rightarrow> (nat \<Rightarrow> GetTransactionStatus) \<Rightarrow> rpc"
where
  "example_server sim sent answers =
     \<lparr>getAccount = (\<lambda>pk. Inr \<lparr>accountId = pk, sequence = ''41''\<rparr>),
      simulateTransaction = (\<lambda>tx. Inr sim),
      sendTransaction = (\<lambda>tx. Inr sent),
      getTransaction = (\<lambda>n h. Inr (answers n))\<rparr>"

definition accepted :: SendTransactionResponse where
  "accepted = \<lparr>status_send = ''PENDING'', hash_send = ''a1b2c3'', errorResult = None\<rparr>"

definition refused :: SendTransactionResponse where
  "refused = \<lparr>status_send = ''ERROR'', hash_send = ''a1b2c3'', errorResult = Some ''{}''\<rparr>"

definition server_healthy :: rpc where
  "server_healthy = example_server (SimulationSuccess ''footprint'') accepted (\<lambda>n. SUCCESS)"

definition server_simulation_fails :: rpc where
  "server_simulation_fails =
     example_server (SimulationError ''host function trapped'') accepted (\<lambda>n. SUCCESS)"

definition server_refuses :: rpc where
  "server_refuses = example_server (SimulationSuccess ''footprint'') refused (\<lambda>n. SUCCESS)"

definition server_confirms_20th :: rpc where
  "server_confirms_20th =
     example_server (SimulationSuccess ''footprint'') accepted
       (\<lambda>n. if n < 20 then NOT_FOUND else SUCCESS)"

definition server_fails_3rd :: rpc where
  "server_fails_3rd =
     example_server (SimulationSuccess ''footprint'') accepted
       (\<lambda>n. if n < 3 then ''MISSING'' else FAILED)"

definition server_never_confirms :: rpc where
  "server_never_confirms =
     example_server (SimulationSuccess ''footprint'') accepted (\<lambda>n. NOT_FOUND)"

text \<open>The record that \<open>registerAsset\<close> builds for the example asset at \<open>Date.now() = 1700000000123\<close>.\<close>

definition example_record :: ScVal where
  "example_record =
     ScvMap
       [(ScvSymbol ''category'', ScvString ''''),
        (ScvSymbol ''custom_attributes'', ScvVec []),
        (ScvSymbol ''description'', ScvString ''''),
        (ScvSymbol ''id'', ScvBytes (buffer (deriveAssetId ''7c9e6679-7425-40de-944b-e07fc1f90ae7''))),
        (ScvSymbol ''last_transfer_timestamp'', ScvU64 0),
        (ScvSymbol ''metadata_uri'', ScvString ''''),
        (ScvSymbol ''name'', ScvString ''Laptop''),
        (ScvSymbol ''owner'', ScvAddress ''GPUBLICKEY''),
        (ScvSymbol ''purchase_value'', ScvI128 2000),
        (ScvSymbol ''registration_timestamp'', ScvU64 1700000000),
        (ScvSymbol ''status'', ScvVec [ScvSymbol ''Active''])]"

definition example_transaction :: Transaction where
  "example_transaction =
     buildTransaction \<lparr>accountId = ''GPUBLICKEY'', sequence = ''41''\<rparr> (Some TESTNET)
       ''CCONTRACT'' example_record"

section \<open>Properties\<close>

subsection \<open>Helper lemmas\<close>

lemma fst_emit: "fst (emit evs r) = fst r"
  by (cases r) simp

lemma snd_emit: "snd (emit evs r) = evs @ snd r"
  by (cases r) simp

lemma assetScVal_no_keypair:
  "keypair this = None \<Longrightarrow> \<exists>e. assetScVal k this asset nowMs = Inl e"
  by (simp add: assetScVal_def Let_def split: sum.splits)

lemma registerAsset_no_keypair:
  "keypair this = None \<Longrightarrow> \<exists>e. registerAsset k srv nowMs this asset = (Inl e, [])"
  using assetScVal_no_keypair [of this k asset nowMs]
  by (auto simp: registerAsset_def)

text \<open>The example inputs, evaluated.\<close>

lemma example_now:
  "BigInt (Math_floor (divide_finite (of_int 1700000000123) 1000)) = Inr 1700000000"
  by code_simp

lemma example_cents: "cents (Str (19995 / 1000)) = Finite 2000"
  by code_simp

lemma assetScVal_example:
  "assetScVal example_sdk example_service example_asset 1700000000123 = Inr example_record"
  using example_now example_cents
  by (simp add: assetScVal_def example_service_def example_asset_def example_record_def
      nativeToScVal_i128_def nativeToScVal_u64_def nativeToScVal_string_def)

lemma validContract_example: "validContract example_sdk c = (c = ''CCONTRACT'')"
  by (simp add: example_sdk_def)

lemma onModuleInit_example:
  "onModuleInit example_sdk example_config new_StellarService =
     (None, example_service, [(Log_log, ''Stellar integration enabled. Public key: GPUBLICKEY'')])"
  by (simp add: onModuleInit_def example_sdk_def example_config_def new_StellarService_def
      example_service_def get_def get_default_def falsy_def Let_def)

subsection \<open>The rounding to binary64\<close>

lemma pow2_powi: "pow2 e = 2 powi e"
  by (simp add: pow2_def power_int_def power_one_over inverse_eq_divide)

lemma pow2_pos: "0 < pow2 e"
  by (simp add: pow2_powi zero_less_power_int)

lemma pow2_add: "pow2 (a + b) = pow2 a * pow2 b"
  by (simp add: pow2_powi power_int_add)

lemma pow2_nat: "pow2 (int n) = 2 ^ n"
  by (simp add: pow2_def)

lemma pow2_strict_mono: "a < b \<Longrightarrow> pow2 a < pow2 b"
  by (simp add: pow2_powi power_int_strict_increasing)

lemma ilog2_bounds:
  "1 \<le> n \<Longrightarrow> 0 \<le> ilog2 n \<and> 2 ^ nat (ilog2 n) \<le> n \<and> n < 2 * 2 ^ nat (ilog2 n)"
proof (induction n rule: ilog2.induct)
  case (1 n)
  show ?case
  proof (cases "n < 2")
    case True
    with "1.prems" have "n = 1" by simp
    then show ?thesis by (simp add: ilog2.simps [of 1])
  next
    case False
    then have "1 \<le> n div 2" by simp
    from "1.IH" [OF False this]
    have l: "0 \<le> ilog2 (n div 2)" "2 ^ nat (ilog2 (n div 2)) \<le> n div 2"
      "n div 2 < 2 * 2 ^ nat (ilog2 (n div 2))"
      by simp_all
    have e: "ilog2 n = 1 + ilog2 (n div 2)"
      using False by (simp add: ilog2.simps [of n])
    have s: "nat (1 + ilog2 (n div 2)) = Suc (nat (ilog2 (n div 2)))"
      using l(1) by simp
    show ?thesis
      using l unfolding e s by auto
  qed
qed

lemma exponent_bounds:
  assumes "0 < x"
  shows "pow2 (exponent x) \<le> x \<and> x < pow2 (exponent x + 1)"
proof -
  obtain a b where q: "quotient_of x = (a, b)"
    by (cases "quotient_of x")
  then have b: "0 < b" and x: "x = of_int a / of_int b"
    using quotient_of_denom_pos quotient_of_div by blast+
  with assms have a: "1 \<le> a"
    by (simp add: zero_less_divide_iff)
  from b have b1: "1 \<le> b" by simp
  define la lb where "la = ilog2 a" and "lb = ilog2 b"
  from ilog2_bounds [OF a] have A: "0 \<le> la" "2 ^ nat la \<le> a" "a < 2 * 2 ^ nat la"
    by (simp_all add: la_def)
  from ilog2_bounds [OF b1] have B: "0 \<le> lb" "2 ^ nat lb \<le> b" "b < 2 * 2 ^ nat lb"
    by (simp_all add: lb_def)
  have pa: "pow2 la = 2 ^ nat la" and pb: "pow2 lb = 2 ^ nat lb"
    using A(1) B(1) by (simp_all add: pow2_def)
  have "(of_int (2 ^ nat la) :: rat) \<le> of_int a" "(of_int a :: rat) < of_int (2 * 2 ^ nat la)"
    using A(2,3) by (simp_all only: of_int_le_iff of_int_less_iff)
  then have ra: "pow2 la \<le> of_int a" "of_int a < 2 * pow2 la"
    by (simp_all add: pa)
  have "(of_int (2 ^ nat lb) :: rat) \<le> of_int b" "(of_int b :: rat) < of_int (2 * 2 ^ nat lb)"
    using B(2,3) by (simp_all only: of_int_le_iff of_int_less_iff)
  then have rb: "pow2 lb \<le> of_int b" "of_int b < 2 * pow2 lb"
    by (simp_all add: pb)
  have split: "pow2 la = pow2 (la - lb) * pow2 lb"
    using pow2_add [of "la - lb" lb] by simp
  have up: "pow2 (la - lb + 1) = 2 * pow2 (la - lb)"
    using pow2_add [of "la - lb" 1] by (simp add: pow2_def)
  have down: "pow2 (la - lb) = 2 * pow2 (la - lb - 1)"
    using pow2_add [of "la - lb - 1" 1] by (simp add: pow2_def)
  have bpos: "(0::rat) < of_int b" using b by simp
  have hi: "x < pow2 (la - lb + 1)"
  proof -
    have "of_int a < 2 * pow2 (la - lb) * pow2 lb"
      using ra(2) split by simp
    also have "\<dots> \<le> 2 * pow2 (la - lb) * of_int b"
      using rb(1) pow2_pos [of "la - lb"] by (simp add: mult_left_mono)
    finally show ?thesis
      unfolding x up using bpos by (simp add: pos_divide_less_eq)
  qed
  have lo: "pow2 (la - lb - 1) < x"
  proof -
    have "pow2 (la - lb - 1) * of_int b < pow2 (la - lb - 1) * (2 * pow2 lb)"
      using rb(2) pow2_pos [of "la - lb - 1"] by (simp add: mult_strict_left_mono)
    also have "\<dots> = pow2 la"
      using split down by simp
    also have "\<dots> \<le> of_int a" by (rule ra(1))
    finally show ?thesis
      unfolding x using bpos by (simp add: pos_less_divide_eq)
  qed
  show ?thesis
  proof (cases "pow2 (la - lb) \<le> x")
    case True
    then have "exponent x = la - lb"
      by (simp add: exponent_def q la_def lb_def)
    with True hi show ?thesis by simp
  next
    case False
    then have "exponent x = la - lb - 1"
      by (simp add: exponent_def q la_def lb_def)
    with False lo show ?thesis by simp
  qed
qed





lemma pow2_mono: "a \<le> b \<Longrightarrow> pow2 a \<le> pow2 b"
  using pow2_strict_mono [of a b] by (cases "a = b") simp_all

lemma binary64_finite:
  assumes "\<bar>x\<bar> < pow2 1023"
  shows "\<exists>y. binary64 x = Finite y"
proof (cases "x = 0")
  case True
  then show ?thesis by (simp add: binary64_def)
next
  case False
  define e where "e = max (exponent \<bar>x\<bar>) (- 1022)"
  have "exponent \<bar>x\<bar> < 1023"
  proof (rule ccontr)
    assume "\<not> exponent \<bar>x\<bar> < 1023"
    then have "pow2 1023 \<le> pow2 (exponent \<bar>x\<bar>)"
      by (intro pow2_mono) simp
    also have "\<dots> \<le> \<bar>x\<bar>"
      using exponent_bounds [of "\<bar>x\<bar>"] False by simp
    finally show False using assms by simp
  qed
  then have "e + 1 \<le> 1023" "e \<le> 1023"
    by (simp_all add: e_def)
  then show ?thesis
    using False by (simp add: binary64_def Let_def e_def [symmetric])
qed

text \<open>\<open>Date.now()\<close> is a whole number of milliseconds below \<open>2^53\<close> in absolute value.\<close>

lemma now_defined:
  assumes "\<bar>nowMs\<bar> < 2 ^ 53"
  shows "\<exists>n. BigInt (Math_floor (divide_finite (of_int nowMs) 1000)) = Inr n"
proof -
  have "\<bar>(of_int nowMs :: rat) / 1000\<bar> \<le> \<bar>of_int nowMs\<bar>"
    by (simp add: divide_le_eq)
  also have "\<dots> = of_int \<bar>nowMs\<bar>" by simp
  also have "\<dots> < of_int (2 ^ 53)"
    using assms by (simp only: of_int_less_iff)
  also have "\<dots> = pow2 53" using pow2_nat [of 53] by simp
  also have "\<dots> < pow2 1023" by (rule pow2_strict_mono) simp
  finally obtain y where "binary64 (of_int nowMs / 1000) = Finite y"
    using binary64_finite by blast
  then show ?thesis by (simp add: divide_finite_def)
qed

lemma registerAsset_unset_keypair:
  assumes "keypair this = None" and "\<bar>nowMs\<bar> < 2 ^ 53"
  shows "registerAsset k srv nowMs this asset =
           (Inl (TypeError ''Cannot read properties of undefined (reading publicKey)''), [])"
proof -
  from now_defined [OF assms(2)] obtain n where
    "BigInt (Math_floor (divide_finite (of_int nowMs) 1000)) = Inr n" ..
  with assms(1) show ?thesis
    by (simp add: registerAsset_def assetScVal_def)
qed

subsection \<open>Enablement\<close>

text \<open>
  Claim C1, as amended. When \<open>STELLAR_ENABLED\<close> is absent or is any string other than
  exactly \<open>true\<close>, \<open>onModuleInit\<close> on the freshly constructed service throws nothing, logs
  one line and leaves the service disabled: \<open>isEnabled\<close> is false, and neither the signing
  key nor the server is set. \<open>registerAsset\<close> has no check of the flag: called on that
  service it throws before any call on the RPC server and before any other event, and
  what it throws, at any time that \<open>Date.now()\<close> can return, is the \<open>TypeError\<close> of reading
  \<open>publicKey\<close> on the unset signing key.
\<close>

theorem onModuleInit_not_enabled:
  assumes "get cfg ''STELLAR_ENABLED'' \<noteq> Some ''true''"
  shows "\<exists>this. onModuleInit k cfg new_StellarService =
           (None, this, [(Log_log, ''Stellar integration is disabled (STELLAR_ENABLED != true)'')])
         \<and> \<not> isEnabled this \<and> keypair this = None \<and> server this = None
         \<and> (\<forall>srv nowMs asset. \<exists>e. registerAsset k srv nowMs this asset = (Inl e, []))
         \<and> (\<forall>srv nowMs asset. \<bar>nowMs\<bar> < 2 ^ 53 \<longrightarrow>
               registerAsset k srv nowMs this asset =
                 (Inl (TypeError ''Cannot read properties of undefined (reading publicKey)''), []))"
proof -
  let ?s = "new_StellarService\<lparr>enabled := False\<rparr>"
  have "onModuleInit k cfg new_StellarService =
          (None, ?s, [(Log_log, ''Stellar integration is disabled (STELLAR_ENABLED != true)'')])"
    using assms by (simp add: onModuleInit_def Let_def)
  moreover have k: "keypair ?s = None" and "server ?s = None" "\<not> isEnabled ?s"
    by (simp_all add: new_StellarService_def isEnabled_def)
  ultimately show ?thesis
    using registerAsset_no_keypair [of ?s] registerAsset_unset_keypair [OF k] by blast
qed

theorem onModuleInit_not_enabled_witness:
  "get [''STELLAR_ENABLED'' \<mapsto> ''TRUE''] ''STELLAR_ENABLED'' \<noteq> Some ''true''
   \<and> \<not> isEnabled (fst (snd (onModuleInit example_sdk [''STELLAR_ENABLED'' \<mapsto> ''TRUE'']
                               new_StellarService)))
   \<and> \<bar>1700000000123 :: int\<bar> < 2 ^ 53
   \<and> registerAsset example_sdk server_healthy 1700000000123
        (fst (snd (onModuleInit example_sdk [''STELLAR_ENABLED'' \<mapsto> ''TRUE'']
                     new_StellarService))) example_asset =
       (Inl (TypeError ''Cannot read properties of undefined (reading publicKey)''), [])"
proof -
  have h: "get [''STELLAR_ENABLED'' \<mapsto> ''TRUE''] ''STELLAR_ENABLED'' \<noteq> Some ''true''"
    by (simp add: get_def)
  have n: "\<bar>1700000000123 :: int\<bar> < 2 ^ 53" by simp
  from onModuleInit_not_enabled [OF h, of example_sdk] obtain this where
    t: "onModuleInit example_sdk [''STELLAR_ENABLED'' \<mapsto> ''TRUE''] new_StellarService =
            (None, this, [(Log_log, ''Stellar integration is disabled (STELLAR_ENABLED != true)'')])"
      "\<not> isEnabled this"
      "\<forall>srv nowMs asset. \<bar>nowMs\<bar> < 2 ^ 53 \<longrightarrow>
               registerAsset example_sdk srv nowMs this asset =
                 (Inl (TypeError ''Cannot read properties of undefined (reading publicKey)''), [])"
    by blast
  from t(3) n have
    "registerAsset example_sdk server_healthy 1700000000123 this example_asset =
       (Inl (TypeError ''Cannot read properties of undefined (reading publicKey)''), [])"
    by blast
  with h n t(1,2) show ?thesis by simp
qed

text \<open>
  Claim C1 as it is written fails: with no setting at all, \<open>registerAsset\<close> on the
  initialised service neither returns nor reports that the bridge is disabled; it
  throws the \<open>TypeError\<close> of reading \<open>publicKey\<close> on the unset signing key.
\<close>

theorem registerAsset_disabled_counterexample:
  "\<not> isEnabled (fst (snd (onModuleInit example_sdk Map.empty new_StellarService)))
   \<and> registerAsset example_sdk server_healthy 1700000000123
        (fst (snd (onModuleInit example_sdk Map.empty new_StellarService))) example_asset =
      (Inl (TypeError ''Cannot read properties of undefined (reading publicKey)''), [])"
  using example_now
  by (simp add: onModuleInit_def get_def Let_def isEnabled_def new_StellarService_def
      registerAsset_def assetScVal_def)

text \<open>
  Claim C9. When \<open>STELLAR_ENABLED\<close> is \<open>true\<close> and the signing key or the contract
  identifier is missing (not set, or the empty string), \<open>onModuleInit\<close> logs one error and
  ends with the service disabled: \<open>isEnabled\<close> is false, and the signing key and the server
  are left as they were, unset on a fresh service. No other method assigns \<open>enabled\<close>.
\<close>

theorem onModuleInit_missing_key:
  assumes "get cfg ''STELLAR_ENABLED'' = Some ''true''"
    and "falsy (get cfg ''STELLAR_SECRET_KEY'') \<or> falsy (get cfg ''STELLAR_CONTRACT_ID'')"
  shows "\<exists>this'. onModuleInit k cfg this =
           (None, this',
            [(Log_error, ''STELLAR_SECRET_KEY and STELLAR_CONTRACT_ID must be set when STELLAR_ENABLED=true'')])
         \<and> \<not> isEnabled this' \<and> keypair this' = keypair this \<and> server this' = server this"
  using assms by (auto simp: onModuleInit_def Let_def isEnabled_def)

theorem onModuleInit_missing_key_witness:
  "get [''STELLAR_ENABLED'' \<mapsto> ''true'', ''STELLAR_CONTRACT_ID'' \<mapsto> ''CCONTRACT'']
       ''STELLAR_ENABLED'' = Some ''true''
   \<and> falsy (get [''STELLAR_ENABLED'' \<mapsto> ''true'', ''STELLAR_CONTRACT_ID'' \<mapsto> ''CCONTRACT'']
              ''STELLAR_SECRET_KEY'')
   \<and> \<not> isEnabled (fst (snd (onModuleInit example_sdk
          [''STELLAR_ENABLED'' \<mapsto> ''true'', ''STELLAR_CONTRACT_ID'' \<mapsto> ''CCONTRACT'']
          new_StellarService)))
   \<and> keypair (fst (snd (onModuleInit example_sdk
          [''STELLAR_ENABLED'' \<mapsto> ''true'', ''STELLAR_CONTRACT_ID'' \<mapsto> ''CCONTRACT'']
          new_StellarService))) = None"
proof -
  let ?cfg = "[''STELLAR_ENABLED'' \<mapsto> ''true'', ''STELLAR_CONTRACT_ID'' \<mapsto> ''CCONTRACT'']"
  have h1: "get ?cfg ''STELLAR_ENABLED'' = Some ''true''"
    by (simp add: get_def)
  have h2: "falsy (get ?cfg ''STELLAR_SECRET_KEY'') \<or> falsy (get ?cfg ''STELLAR_CONTRACT_ID'')"
    by (simp add: get_def falsy_def)
  from onModuleInit_missing_key [OF h1 h2, of example_sdk new_StellarService]
  have "\<not> isEnabled (fst (snd (onModuleInit example_sdk ?cfg new_StellarService)))
      \<and> keypair (fst (snd (onModuleInit example_sdk ?cfg new_StellarService))) = None"
    by (auto simp: new_StellarService_def)
  with h1 show ?thesis by (simp add: get_def falsy_def)
qed

subsection \<open>The status\<close>

text \<open>
  Claim C5. \<open>mapStatus\<close> is total: \<open>RETIRED\<close> gives the tag \<open>Retired\<close>, and every other
  member of \<open>AssetStatus\<close> gives \<open>Active\<close>.
\<close>

theorem mapStatus_closed:
  "mapStatus RETIRED = ''Retired'' \<and> (\<forall>s. s \<noteq> RETIRED \<longrightarrow> mapStatus s = ''Active'')"
proof -
  have "mapStatus s = ''Active''" if "s \<noteq> RETIRED" for s
    using that by (cases s) simp_all
  then show ?thesis by simp
qed

theorem mapStatus_closed_witness:
  "MAINTENANCE \<noteq> RETIRED \<and> mapStatus MAINTENANCE = ''Active'' \<and> mapStatus RETIRED = ''Retired''"
  using mapStatus_closed by simp

subsection \<open>Polling\<close>

lemma status_distinct [simp]:
  "SUCCESS \<noteq> FAILED" "FAILED \<noteq> SUCCESS" "NOT_FOUND \<noteq> SUCCESS" "NOT_FOUND \<noteq> FAILED"
  by (simp_all add: SUCCESS_def FAILED_def NOT_FOUND_def)

lemma pollLoop_pending_step:
  assumes "attempt \<le> MAX_ATTEMPTS" and "pending (getTransaction srv attempt h)"
  shows "fst (pollLoop srv h attempt) = fst (pollLoop srv h (Suc attempt))"
    and "polls (snd (pollLoop srv h attempt)) = Suc (polls (snd (pollLoop srv h (Suc attempt))))"
proof -
  obtain s where s: "getTransaction srv attempt h = Inr s" "s \<noteq> SUCCESS" "s \<noteq> FAILED"
    using assms(2) by (auto simp: pending_def split: sum.splits)
  obtain r evs where r: "pollLoop srv h (Suc attempt) = (r, evs)"
    by (cases "pollLoop srv h (Suc attempt)")
  have "pollLoop srv h attempt =
          (r, [Slept INTERVAL_MS, Call_getTransaction h] @
              [Logged Log_debug
                 (''Poll attempt '' @ string_of_nat attempt @ ''/''
                    @ string_of_nat MAX_ATTEMPTS @ '': status='' @ s)] @ evs)"
    using assms(1) s r by (simp add: pollLoop.simps [of srv h attempt])
  then show "fst (pollLoop srv h attempt) = fst (pollLoop srv h (Suc attempt))"
    and "polls (snd (pollLoop srv h attempt)) = Suc (polls (snd (pollLoop srv h (Suc attempt))))"
    using r by (simp_all add: polls_def)
qed

lemma pollLoop_skip:
  assumes "\<forall>i. a \<le> i \<and> i < N \<longrightarrow> pending (getTransaction srv i h)"
    and "a \<le> N" and "N \<le> Suc MAX_ATTEMPTS"
  shows "fst (pollLoop srv h a) = fst (pollLoop srv h N)
       \<and> polls (snd (pollLoop srv h a)) = (N - a) + polls (snd (pollLoop srv h N))"
  using assms
proof (induction "N - a" arbitrary: a)
  case 0
  then show ?case by simp
next
  case (Suc d)
  then have a: "a < N" "a \<le> MAX_ATTEMPTS" "pending (getTransaction srv a h)"
    by auto
  have "d = N - Suc a" using Suc.hyps(2) by simp
  moreover have "\<forall>i. Suc a \<le> i \<and> i < N \<longrightarrow> pending (getTransaction srv i h)"
    using Suc.prems(1) by auto
  ultimately have ih: "fst (pollLoop srv h (Suc a)) = fst (pollLoop srv h N)
       \<and> polls (snd (pollLoop srv h (Suc a))) = (N - Suc a) + polls (snd (pollLoop srv h N))"
    using Suc.hyps(1) [of "Suc a"] a(1) Suc.prems(3) by simp
  show ?case
    using pollLoop_pending_step [OF a(2) a(3)] ih a(1) by simp
qed

lemma pollLoop_success:
  assumes "N \<le> MAX_ATTEMPTS" and "getTransaction srv N h = Inr SUCCESS"
  shows "fst (pollLoop srv h N) = Inr h" and "polls (snd (pollLoop srv h N)) = 1"
  using assms by (simp_all add: pollLoop.simps [of srv h N] polls_def)

lemma pollLoop_failed:
  assumes "N \<le> MAX_ATTEMPTS" and "getTransaction srv N h = Inr FAILED"
  shows "fst (pollLoop srv h N) = Inl (Error (''Transaction failed on-chain: '' @ h))"
    and "polls (snd (pollLoop srv h N)) = 1"
  using assms by (simp_all add: pollLoop.simps [of srv h N] polls_def)

lemma string_of_nat_20: "string_of_nat 20 = ''20''"
  by (simp add: string_of_nat.simps [of 20] string_of_nat.simps [of 2])

lemma pollLoop_exhausted:
  "pollLoop srv h (Suc MAX_ATTEMPTS) =
     (Inl (Error (''Transaction not confirmed after 20 attempts: '' @ h)), [])"
  by (simp add: pollLoop.simps [of srv h "Suc MAX_ATTEMPTS"])
    (simp add: MAX_ATTEMPTS_def string_of_nat_20)

text \<open>
  Claim C2. Let the answers to the status queries before the \<open>N\<close>-th all be non-terminal,
  with \<open>1 \<le> N \<le> 20\<close>. If the \<open>N\<close>-th answer is \<open>SUCCESS\<close>, \<open>pollForConfirmation\<close> returns
  the hash, having made exactly \<open>N\<close> queries; if it is \<open>FAILED\<close>, it throws at once, again
  after exactly \<open>N\<close> queries. If all of the first 20 answers are non-terminal, it throws
  the time-out error after exactly 20 queries.
\<close>

theorem pollForConfirmation_outcomes:
  "(1 \<le> N \<and> N \<le> 20 \<and> (\<forall>i. 1 \<le> i \<and> i < N \<longrightarrow> pending (getTransaction srv i h)) \<longrightarrow>
      (getTransaction srv N h = Inr SUCCESS \<longrightarrow>
         fst (pollForConfirmation srv h) = Inr h
         \<and> polls (snd (pollForConfirmation srv h)) = N)
    \<and> (getTransaction srv N h = Inr FAILED \<longrightarrow>
         fst (pollForConfirmation srv h) = Inl (Error (''Transaction failed on-chain: '' @ h))
         \<and> polls (snd (pollForConfirmation srv h)) = N))
  \<and> ((\<forall>i. 1 \<le> i \<and> i \<le> 20 \<longrightarrow> pending (getTransaction srv i h)) \<longrightarrow>
        fst (pollForConfirmation srv h) =
          Inl (Error (''Transaction not confirmed after 20 attempts: '' @ h))
        \<and> polls (snd (pollForConfirmation srv h)) = 20)"
proof (intro conjI impI)
  assume *: "1 \<le> N \<and> N \<le> 20 \<and> (\<forall>i. 1 \<le> i \<and> i < N \<longrightarrow> pending (getTransaction srv i h))"
  then have skip: "fst (pollLoop srv h 1) = fst (pollLoop srv h N)
       \<and> polls (snd (pollLoop srv h 1)) = (N - 1) + polls (snd (pollLoop srv h N))"
    by (intro pollLoop_skip) (simp_all add: MAX_ATTEMPTS_def)
  have N: "N \<le> MAX_ATTEMPTS" using * by (simp add: MAX_ATTEMPTS_def)
  {
    assume "getTransaction srv N h = Inr SUCCESS"
    from pollLoop_success [OF N this] skip *
    show "fst (pollForConfirmation srv h) = Inr h"
      and "polls (snd (pollForConfirmation srv h)) = N"
      by (simp_all add: pollForConfirmation_def)
  }
  {
    assume "getTransaction srv N h = Inr FAILED"
    from pollLoop_failed [OF N this] skip *
    show "fst (pollForConfirmation srv h) = Inl (Error (''Transaction failed on-chain: '' @ h))"
      and "polls (snd (pollForConfirmation srv h)) = N"
      by (simp_all add: pollForConfirmation_def)
  }
next
  assume "\<forall>i. 1 \<le> i \<and> i \<le> 20 \<longrightarrow> pending (getTransaction srv i h)"
  then have "fst (pollLoop srv h 1) = fst (pollLoop srv h (Suc MAX_ATTEMPTS))
       \<and> polls (snd (pollLoop srv h 1)) =
           (Suc MAX_ATTEMPTS - 1) + polls (snd (pollLoop srv h (Suc MAX_ATTEMPTS)))"
    by (intro pollLoop_skip) (simp_all add: MAX_ATTEMPTS_def)
  then show "fst (pollForConfirmation srv h) =
          Inl (Error (''Transaction not confirmed after 20 attempts: '' @ h))"
    and "polls (snd (pollForConfirmation srv h)) = 20"
    by (simp_all add: pollForConfirmation_def pollLoop_exhausted polls_def, simp add: MAX_ATTEMPTS_def)
qed

lemma getTransaction_example [simp]:
  "getTransaction (example_server sim sent answers) n h = Inr (answers n)"
  by (simp add: example_server_def)

theorem pollForConfirmation_outcomes_witness:
  "fst (pollForConfirmation server_confirms_20th ''a1b2c3'') = Inr ''a1b2c3''
   \<and> polls (snd (pollForConfirmation server_confirms_20th ''a1b2c3'')) = 20
   \<and> fst (pollForConfirmation server_fails_3rd ''a1b2c3'') =
       Inl (Error ''Transaction failed on-chain: a1b2c3'')
   \<and> polls (snd (pollForConfirmation server_fails_3rd ''a1b2c3'')) = 3
   \<and> fst (pollForConfirmation server_never_confirms ''a1b2c3'') =
       Inl (Error ''Transaction not confirmed after 20 attempts: a1b2c3'')
   \<and> polls (snd (pollForConfirmation server_never_confirms ''a1b2c3'')) = 20"
proof -
  have a: "(1::nat) \<le> 20 \<and> (20::nat) \<le> 20
      \<and> (\<forall>i. 1 \<le> i \<and> i < 20 \<longrightarrow> pending (getTransaction server_confirms_20th i ''a1b2c3''))"
    and a': "getTransaction server_confirms_20th 20 ''a1b2c3'' = Inr SUCCESS"
    by (simp_all add: server_confirms_20th_def pending_def)
  have b: "(1::nat) \<le> 3 \<and> (3::nat) \<le> 20
      \<and> (\<forall>i. 1 \<le> i \<and> i < 3 \<longrightarrow> pending (getTransaction server_fails_3rd i ''a1b2c3''))"
    and b': "getTransaction server_fails_3rd 3 ''a1b2c3'' = Inr FAILED"
    by (simp_all add: server_fails_3rd_def pending_def SUCCESS_def FAILED_def)
  have c: "\<forall>i. 1 \<le> i \<and> i \<le> 20 \<longrightarrow> pending (getTransaction server_never_confirms i ''a1b2c3'')"
    by (simp add: server_never_confirms_def pending_def)
  show ?thesis
    using pollForConfirmation_outcomes [of 20 server_confirms_20th "''a1b2c3''"] a a'
      pollForConfirmation_outcomes [of 3 server_fails_3rd "''a1b2c3''"] b b'
      pollForConfirmation_outcomes [of 1 server_never_confirms "''a1b2c3''"] c
    by simp
qed

subsection \<open>Simulation and submission\<close>

lemma pollLoop_events:
  "e \<in> set (snd (pollLoop srv h a)) \<Longrightarrow> \<not> is_simulate e \<and> \<not> is_send e"
proof (induction srv h a rule: pollLoop.induct)
  case (1 srv txHash attempt)
  show ?case
  proof (cases "attempt \<le> MAX_ATTEMPTS")
    case False
    with "1.prems" show ?thesis
      by (simp add: pollLoop.simps [of srv txHash attempt])
  next
    case True
    show ?thesis
    proof (cases "getTransaction srv attempt txHash")
      case (Inl err)
      with True "1.prems" show ?thesis
        by (auto simp: pollLoop.simps [of srv txHash attempt])
    next
      case (Inr result)
      show ?thesis
      proof (cases "result = SUCCESS \<or> result = FAILED")
        case True
        with \<open>attempt \<le> MAX_ATTEMPTS\<close> Inr "1.prems" show ?thesis
          by (auto simp: pollLoop.simps [of srv txHash attempt])
      next
        case False
        with \<open>attempt \<le> MAX_ATTEMPTS\<close> Inr "1.prems"
        have "e \<in> set (snd (pollLoop srv txHash (Suc attempt))) \<or> \<not> is_simulate e \<and> \<not> is_send e"
          by (auto simp: pollLoop.simps [of srv txHash attempt] snd_emit)
        with "1.IH" [OF \<open>attempt \<le> MAX_ATTEMPTS\<close> Inr] False show ?thesis
          by auto
      qed
    qed
  qed
qed

lemma pollForConfirmation_events:
  "e \<in> set (snd (pollForConfirmation srv h)) \<Longrightarrow> \<not> is_simulate e \<and> \<not> is_send e"
  unfolding pollForConfirmation_def by (rule pollLoop_events)

text \<open>
  Claim C6. If a run of \<open>registerAsset\<close> simulates a transaction and the simulation
  reports an error, the run throws \<open>Simulation failed\<close> with that error, it has made no
  submission, and it has simulated once: there is no retry.
\<close>

theorem registerAsset_simulation_error:
  "Call_simulateTransaction tx \<in> set (snd (registerAsset k srv nowMs this asset))
   \<and> simulateTransaction srv tx = Inr (SimulationError err) \<longrightarrow>
     fst (registerAsset k srv nowMs this asset) = Inl (Error (''Simulation failed: '' @ err))
   \<and> submissions (snd (registerAsset k srv nowMs this asset)) = 0
   \<and> simulations (snd (registerAsset k srv nowMs this asset)) = 1"
  using pollForConfirmation_events [of "Call_simulateTransaction tx" srv]
  by (auto simp: registerAsset_def Let_def fst_emit snd_emit submissions_def simulations_def
      split: sum.splits option.splits SimulateTransactionResponse.splits if_splits)

lemma registerAsset_simulation_fails:
  "registerAsset example_sdk server_simulation_fails 1700000000123 example_service example_asset =
     (Inl (Error ''Simulation failed: host function trapped''),
      [Call_getAccount ''GPUBLICKEY'', Call_simulateTransaction example_transaction])"
  by (simp add: registerAsset_def assetScVal_example validContract_example example_transaction_def
      server_simulation_fails_def example_server_def)
    (simp add: example_service_def validContract_example)

theorem registerAsset_simulation_error_witness:
  "Call_simulateTransaction example_transaction
     \<in> set (snd (registerAsset example_sdk server_simulation_fails 1700000000123
                   example_service example_asset))
   \<and> simulateTransaction server_simulation_fails example_transaction =
       Inr (SimulationError ''host function trapped'')
   \<and> fst (registerAsset example_sdk server_simulation_fails 1700000000123
            example_service example_asset) =
       Inl (Error ''Simulation failed: host function trapped'')
   \<and> submissions (snd (registerAsset example_sdk server_simulation_fails 1700000000123
                          example_service example_asset)) = 0"
proof -
  have h: "Call_simulateTransaction example_transaction
       \<in> set (snd (registerAsset example_sdk server_simulation_fails 1700000000123
                     example_service example_asset))"
    by (simp add: registerAsset_simulation_fails)
  have h': "simulateTransaction server_simulation_fails example_transaction =
       Inr (SimulationError ''host function trapped'')"
    by (simp add: server_simulation_fails_def example_server_def)
  from registerAsset_simulation_error [of example_transaction example_sdk
      server_simulation_fails 1700000000123 example_service example_asset
      "''host function trapped''"] h h'
  show ?thesis by simp
qed

text \<open>
  Claim C7. If a run of \<open>registerAsset\<close> submits a transaction and the answer has the
  status \<open>ERROR\<close>, the run throws \<open>Transaction submission failed\<close> with the answer's error
  payload, as \<open>JSON.stringify\<close> prints it, in the message, and it has neither slept nor
  queried the status of the transaction.
\<close>

theorem registerAsset_submission_error:
  "Call_sendTransaction tx \<in> set (snd (registerAsset k srv nowMs this asset))
   \<and> sendTransaction srv tx = Inr sendResult \<and> status_send sendResult = ''ERROR'' \<longrightarrow>
     fst (registerAsset k srv nowMs this asset) =
       Inl (Error (''Transaction submission failed: '' @ JSON_stringify (errorResult sendResult)))
   \<and> polls (snd (registerAsset k srv nowMs this asset)) = 0
   \<and> sleeps (snd (registerAsset k srv nowMs this asset)) = 0"
  using pollForConfirmation_events [of "Call_sendTransaction tx" srv]
  by (auto simp: registerAsset_def Let_def fst_emit snd_emit polls_def sleeps_def
      split: sum.splits option.splits SimulateTransactionResponse.splits if_splits)

lemma registerAsset_refused:
  "registerAsset example_sdk server_refuses 1700000000123 example_service example_asset =
     (Inl (Error ''Transaction submission failed: {}''),
      [Call_getAccount ''GPUBLICKEY'', Call_simulateTransaction example_transaction,
       Call_sendTransaction
         (sign (assembleTransaction example_transaction ''footprint'')
            \<lparr>secret = ''SECRETSEED'', publicKey = ''GPUBLICKEY''\<rparr>)])"
  by (simp add: registerAsset_def assetScVal_example validContract_example example_transaction_def
      server_refuses_def example_server_def refused_def)
    (simp add: example_service_def validContract_example Let_def JSON_stringify_def)

theorem registerAsset_submission_error_witness:
  "Call_sendTransaction
       (sign (assembleTransaction example_transaction ''footprint'')
          \<lparr>secret = ''SECRETSEED'', publicKey = ''GPUBLICKEY''\<rparr>)
     \<in> set (snd (registerAsset example_sdk server_refuses 1700000000123
                   example_service example_asset))
   \<and> sendTransaction server_refuses
        (sign (assembleTransaction example_transaction ''footprint'')
           \<lparr>secret = ''SECRETSEED'', publicKey = ''GPUBLICKEY''\<rparr>) = Inr refused
   \<and> status_send refused = ''ERROR''
   \<and> fst (registerAsset example_sdk server_refuses 1700000000123 example_service example_asset) =
       Inl (Error ''Transaction submission failed: {}'')
   \<and> polls (snd (registerAsset example_sdk server_refuses 1700000000123
                    example_service example_asset)) = 0"
proof -
  let ?tx = "sign (assembleTransaction example_transaction ''footprint'')
               \<lparr>secret = ''SECRETSEED'', publicKey = ''GPUBLICKEY''\<rparr>"
  have h: "Call_sendTransaction ?tx
       \<in> set (snd (registerAsset example_sdk server_refuses 1700000000123
                     example_service example_asset))"
    by (simp add: registerAsset_refused)
  have h': "sendTransaction server_refuses ?tx = Inr refused" "status_send refused = ''ERROR''"
    by (simp_all add: server_refuses_def example_server_def refused_def)
  from registerAsset_submission_error [of ?tx example_sdk server_refuses 1700000000123
      example_service example_asset refused] h h'
  show ?thesis by (simp add: JSON_stringify_def refused_def)
qed

subsection \<open>The record of an asset\<close>

text \<open>
  Claim C10. Whenever \<open>registerAsset\<close> builds the record of an asset, the record has
  \<open>custom_attributes\<close> the empty vector, \<open>last_transfer_timestamp\<close> the 64-bit zero,
  \<open>metadata_uri\<close> the empty string and \<open>owner\<close> the address of the service's signing key;
  a missing description, a missing category and a category without a name give the empty
  string.
\<close>

theorem assetScVal_fixed_fields:
  "assetScVal k this asset nowMs = Inr v \<and> keypair this = Some kp \<longrightarrow>
     field ''custom_attributes'' v = Some (ScvVec [])
   \<and> field ''last_transfer_timestamp'' v = Some (ScvU64 0)
   \<and> field ''metadata_uri'' v = Some (ScvString '''')
   \<and> field ''owner'' v = Some (ScvAddress (publicKey kp))
   \<and> (description asset = None \<longrightarrow> field ''description'' v = Some (ScvString ''''))
   \<and> (category asset = None \<or> (\<exists>c. category asset = Some c \<and> name_category c = None) \<longrightarrow>
        field ''category'' v = Some (ScvString ''''))"
  by (auto simp: assetScVal_def Let_def nativeToScVal_string_def
      split: sum.splits option.splits)

theorem assetScVal_fixed_fields_witness:
  "assetScVal example_sdk example_service example_asset 1700000000123 = Inr example_record
   \<and> keypair example_service = Some \<lparr>secret = ''SECRETSEED'', publicKey = ''GPUBLICKEY''\<rparr>
   \<and> description example_asset = None
   \<and> (\<exists>c. category example_asset = Some c \<and> name_category c = None)
   \<and> field ''custom_attributes'' example_record = Some (ScvVec [])
   \<and> field ''last_transfer_timestamp'' example_record = Some (ScvU64 0)
   \<and> field ''metadata_uri'' example_record = Some (ScvString '''')
   \<and> field ''owner'' example_record = Some (ScvAddress ''GPUBLICKEY'')
   \<and> field ''description'' example_record = Some (ScvString '''')
   \<and> field ''category'' example_record = Some (ScvString '''')"
proof -
  have h: "assetScVal example_sdk example_service example_asset 1700000000123 = Inr example_record
      \<and> keypair example_service = Some \<lparr>secret = ''SECRETSEED'', publicKey = ''GPUBLICKEY''\<rparr>"
    by (simp add: assetScVal_example) (simp add: example_service_def)
  have d: "description example_asset = None"
    and c: "\<exists>c. category example_asset = Some c \<and> name_category c = None"
    by (simp_all add: example_asset_def)
  from assetScVal_fixed_fields [of example_sdk example_service example_asset 1700000000123
      example_record
      "\<lparr>secret = ''SECRETSEED'', publicKey = ''GPUBLICKEY''\<rparr>"] h d c
  show ?thesis by simp
qed

subsection \<open>The identifier\<close>

lemma length_round256: "length (round256 s kw) = length s"
  by (induction s kw rule: round256.induct) (simp_all add: Let_def)

lemma length_foldl_round256: "length (foldl round256 s kws) = length s"
  by (induction kws arbitrary: s) (simp_all add: length_round256)

lemma length_compress: "length (compress h block) = length h"
  by (simp add: compress_def length_foldl_round256)

lemma length_foldl_compress: "length (foldl compress h blocks) = length h"
  by (induction blocks arbitrary: h) (simp_all add: length_compress)

lemma length_concat_bytes: "length (concat (map bytes_of_u32 ws)) = 4 * length ws"
  by (induction ws) (simp_all add: bytes_of_u32_def)

lemma length_sha256: "length (sha256 m) = 32"
  by (simp add: sha256_def length_concat_bytes length_foldl_compress H0_def)

lemma length_toHex: "length (toHex bs) = 2 * length bs"
  by (induction bs) (simp_all add: toHex_def)

lemma sha256_abc:
  "toHex (sha256 (utf8 ''abc'')) =
     ''ba7816bf8f01cfea414140de5dae2223b00361a396177a9cb410ff61f20015ad''"
  by code_simp

text \<open>
  Claim C8. \<open>deriveAssetId\<close> is a function of the identifier alone, with no error among
  its results: for every identifier the digest has 32 bytes, \<open>hex\<close> is the digest in 64
  hexadecimal digits, and equal identifiers have equal results.
\<close>

theorem deriveAssetId_digest:
  "length (buffer (deriveAssetId uuid)) = 32
   \<and> hex (deriveAssetId uuid) = toHex (buffer (deriveAssetId uuid))
   \<and> length (hex (deriveAssetId uuid)) = 64
   \<and> (\<forall>other. other = uuid \<longrightarrow> deriveAssetId other = deriveAssetId uuid)"
  by (simp add: deriveAssetId_def Let_def length_sha256 length_toHex)

theorem deriveAssetId_digest_witness:
  "length (buffer (deriveAssetId ''abc'')) = 32
   \<and> hex (deriveAssetId ''abc'') =
       ''ba7816bf8f01cfea414140de5dae2223b00361a396177a9cb410ff61f20015ad''
   \<and> ''abc'' = ''abc'' \<and> deriveAssetId ''abc'' = deriveAssetId ''abc''"
  using deriveAssetId_digest [of "''abc''"] sha256_abc
  by (simp add: deriveAssetId_def Let_def)

subsection \<open>The purchase value\<close>







lemma BigInt_Inr: "BigInt x = Inr n \<Longrightarrow> x = Finite (of_int n)"
  by (cases x) (auto split: if_splits)

lemma Math_round_Finite:
  "Math_round x = Finite y \<Longrightarrow> \<exists>x'. x = Finite x' \<and> y = of_int \<lfloor>x' + 1 / 2\<rfloor>"
  by (cases x) auto

lemma cents_Finite:
  assumes "cents p = Finite (of_int n)"
  shows "(truthy p \<longrightarrow> (\<exists>x. times_number (Number p) (Finite 100) = Finite x \<and> n = \<lfloor>x + 1 / 2\<rfloor>))
       \<and> (\<not> truthy p \<longrightarrow> n = 0)"
proof (cases "truthy p")
  case True
  with assms have "Math_round (times_number (Number p) (Finite 100)) = Finite (of_int n)"
    by (simp add: cents_def)
  from Math_round_Finite [OF this] obtain x where
    "times_number (Number p) (Finite 100) = Finite x" "(of_int n :: rat) = of_int \<lfloor>x + 1 / 2\<rfloor>"
    by blast
  with True show ?thesis by auto
next
  case False
  with assms show ?thesis by (simp add: cents_def)
qed


lemma example_product:
  "times_number (Number (Str (19995 / 1000))) (Finite 100) = Finite (3999 / 2)"
  by code_simp





text \<open>
  Claim C4, as amended. Whenever \<open>registerAsset\<close> builds the record of an asset, its
  \<open>purchase_value\<close> is the signed 128-bit encoding of an integer \<open>n\<close>: for a truthy price the
  product of the price and 100, as a binary64 number, rounded to the nearest integer,
  upwards at a half; and 0 for a price that is \<open>null\<close> or zero. When \<open>n\<close> fits 128 bits
  the value encoded is \<open>n\<close>; when it does not, it is what the SDK makes of \<open>n\<close>.
\<close>

theorem purchase_value_rounded:
  "assetScVal k this asset nowMs = Inr v \<longrightarrow>
     (\<exists>n. (truthy (purchasePrice asset) \<longrightarrow>
             (\<exists>x. times_number (Number (purchasePrice asset)) (Finite 100) = Finite x
                \<and> n = \<lfloor>x + 1 / 2\<rfloor>))
        \<and> (\<not> truthy (purchasePrice asset) \<longrightarrow> n = 0)
        \<and> (- (2 ^ 127) \<le> n \<and> n < 2 ^ 127 \<longrightarrow>
             field ''purchase_value'' v = Some (ScvI128 n))
        \<and> (\<not> (- (2 ^ 127) \<le> n \<and> n < 2 ^ 127) \<longrightarrow>
             (\<exists>w. i128_beyond k n = Inr w \<and> field ''purchase_value'' v = Some (ScvI128 w))))"
proof
  assume a: "assetScVal k this asset nowMs = Inr v"
  then obtain n where n: "BigInt (cents (purchasePrice asset)) = Inr n"
    and r: "nativeToScVal_i128 k n = Inr (the (field ''purchase_value'' v))"
    and f: "field ''purchase_value'' v \<noteq> None"
    by (auto simp: assetScVal_def Let_def split: sum.splits option.splits)
  from r f have "- (2 ^ 127) \<le> n \<and> n < 2 ^ 127 \<longrightarrow>
      field ''purchase_value'' v = Some (ScvI128 n)"
    and "\<not> (- (2 ^ 127) \<le> n \<and> n < 2 ^ 127) \<longrightarrow>
      (\<exists>w. i128_beyond k n = Inr w \<and> field ''purchase_value'' v = Some (ScvI128 w))"
    by (auto simp: nativeToScVal_i128_def split: if_splits sum.splits)
  moreover from BigInt_Inr [OF n] have "cents (purchasePrice asset) = Finite (of_int n)" .
  ultimately show "\<exists>n. (truthy (purchasePrice asset) \<longrightarrow>
             (\<exists>x. times_number (Number (purchasePrice asset)) (Finite 100) = Finite x
                \<and> n = \<lfloor>x + 1 / 2\<rfloor>))
        \<and> (\<not> truthy (purchasePrice asset) \<longrightarrow> n = 0)
        \<and> (- (2 ^ 127) \<le> n \<and> n < 2 ^ 127 \<longrightarrow>
             field ''purchase_value'' v = Some (ScvI128 n))
        \<and> (\<not> (- (2 ^ 127) \<le> n \<and> n < 2 ^ 127) \<longrightarrow>
             (\<exists>w. i128_beyond k n = Inr w \<and> field ''purchase_value'' v = Some (ScvI128 w)))"
    using cents_Finite [of "purchasePrice asset" n] by blast
qed

lemma floor_int_half: "\<lfloor>(of_int N :: rat) + 1 / 2\<rfloor> = N"
  by (simp add: floor_eq_iff)

lemma dear_product:
  "times_number (Number (Str (10 ^ 40))) (Finite 100) =
     Finite 1000000000000000044885712678075916785549312"
  by code_simp

lemma assetScVal_dear:
  "\<exists>v. assetScVal example_sdk example_service dear_asset 1700000000123 = Inr v"
  using example_now dear_product
  by (simp add: assetScVal_def example_service_def example_asset_def dear_asset_def cents_def
      nativeToScVal_i128_def nativeToScVal_u64_def example_sdk_def)

theorem purchase_value_rounded_witness:
  "assetScVal example_sdk example_service example_asset 1700000000123 = Inr example_record
   \<and> truthy (purchasePrice example_asset)
   \<and> times_number (Number (purchasePrice example_asset)) (Finite 100) = Finite (3999 / 2)
   \<and> field ''purchase_value'' example_record = Some (ScvI128 2000)
   \<and> (\<exists>v. assetScVal example_sdk example_service dear_asset 1700000000123 = Inr v
          \<and> truthy (purchasePrice dear_asset)
          \<and> times_number (Number (purchasePrice dear_asset)) (Finite 100) =
              Finite 1000000000000000044885712678075916785549312
          \<and> \<not> (1000000000000000044885712678075916785549312 < (2 ^ 127 :: int))
          \<and> field ''purchase_value'' v =
              Some (ScvI128 (- 89876380638099233145293166049987919872)))"
proof -
  have t: "truthy (purchasePrice example_asset)"
    by (simp add: example_asset_def)
  have p: "times_number (Number (purchasePrice example_asset)) (Finite 100) = Finite (3999 / 2)"
    using example_product by (simp add: example_asset_def)
  from purchase_value_rounded [of example_sdk example_service example_asset 1700000000123
      example_record] assetScVal_example t
  obtain n x where x: "times_number (Number (purchasePrice example_asset)) (Finite 100) = Finite x"
    and r: "n = \<lfloor>x + 1 / 2\<rfloor>"
    and n: "- (2 ^ 127) \<le> n \<and> n < 2 ^ 127 \<longrightarrow>
             field ''purchase_value'' example_record = Some (ScvI128 n)"
    by blast
  from x p have "x = 3999 / 2" by simp
  with r have "n = 2000" by simp
  with n have one: "field ''purchase_value'' example_record = Some (ScvI128 2000)" by simp
  have t': "truthy (purchasePrice dear_asset)"
    by (simp add: dear_asset_def)
  have p': "times_number (Number (purchasePrice dear_asset)) (Finite 100) =
      Finite 1000000000000000044885712678075916785549312"
    using dear_product by (simp add: dear_asset_def)
  from assetScVal_dear obtain v where
    v: "assetScVal example_sdk example_service dear_asset 1700000000123 = Inr v" ..
  from purchase_value_rounded [of example_sdk example_service dear_asset 1700000000123 v] v t'
  obtain n' x' where
    x': "times_number (Number (purchasePrice dear_asset)) (Finite 100) = Finite x'"
    and r': "n' = \<lfloor>x' + 1 / 2\<rfloor>"
    and n': "\<not> (- (2 ^ 127) \<le> n' \<and> n' < 2 ^ 127) \<longrightarrow>
             (\<exists>w. i128_beyond example_sdk n' = Inr w
                \<and> field ''purchase_value'' v = Some (ScvI128 w))"
    by blast
  from x' p' have "x' = of_int 1000000000000000044885712678075916785549312" by simp
  with r' have "n' = 1000000000000000044885712678075916785549312"
    by (simp only: floor_int_half)
  with n' have "field ''purchase_value'' v =
      Some (ScvI128 (- 89876380638099233145293166049987919872))"
    by (simp add: example_sdk_def)
  with v t' p' have "\<exists>v. assetScVal example_sdk example_service dear_asset 1700000000123 = Inr v
          \<and> truthy (purchasePrice dear_asset)
          \<and> times_number (Number (purchasePrice dear_asset)) (Finite 100) =
              Finite 1000000000000000044885712678075916785549312
          \<and> \<not> (1000000000000000044885712678075916785549312 < (2 ^ 127 :: int))
          \<and> field ''purchase_value'' v =
              Some (ScvI128 (- 89876380638099233145293166049987919872))"
    by auto
  with assetScVal_example t p one show ?thesis by blast
qed

text \<open>
  Claim C4 as it is written fails: the price 19.995 times 100 is 1999.5, which truncates
  to 1999, and the record of the example asset has the purchase value 2000.
\<close>

theorem purchase_value_truncated_counterexample:
  "assetScVal example_sdk example_service example_asset 1700000000123 = Inr example_record
   \<and> field ''purchase_value'' example_record = Some (ScvI128 2000)
   \<and> cents_truncated (purchasePrice example_asset) = Finite 1999"
proof -
  have "cents_truncated (Str (19995 / 1000)) = Finite 1999"
    by code_simp
  then show ?thesis
    using assetScVal_example by (simp add: example_record_def example_asset_def)
qed

end
